theory Spec2Isabelle
  imports Main
begin

section \<open>Python values used by the server\<close>

text \<open>
  A Python \<open>str\<close> is a sequence of Unicode code points and \<open>len\<close> counts code points,
  so a string is a list of code points here. The literals of \<open>server/main.py\<close> are
  ASCII except one; \<open>ascii\<close> embeds an ASCII literal.
\<close>

type_synonym str = "nat list"

definition ascii :: "string \<Rightarrow> str" where
  "ascii s = map of_char s"

text \<open>
  The values an argument mapping (\<open>dict[str, Any]\<close>) carries here: \<open>None\<close>,
  booleans, integers and strings. \<open>py_str\<close> is what \<open>str(v)\<close>, \<open>format(v, "")\<close> and an f-string field \<open>{v}\<close>
  produce for them.
\<close>

datatype pyval = PNone | PBool bool | PInt int | PStr str

function digits :: "nat \<Rightarrow> str" where
  "digits n = (if n < 10 then [48 + n] else digits (n div 10) @ [48 + n mod 10])"
  by pat_completeness auto
termination
  by (relation "measure id") auto

declare digits.simps [simp del]

fun py_str :: "pyval \<Rightarrow> str" where
  "py_str PNone = ascii ''None''"
| "py_str (PBool b) = (if b then ascii ''True'' else ascii ''False'')"
| "py_str (PInt i) = (if i < 0 then ascii ''-'' @ digits (nat (- i)) else digits (nat i))"
| "py_str (PStr s) = s"

type_synonym pydict = "(str \<times> pyval) list"

text \<open>
  Exceptions (instances of Python's \<open>Exception\<close>, which is what \<open>except Exception\<close>
  catches): the class and the text \<open>str(exc)\<close> gives.
\<close>

datatype exn_class = ValueError | AttributeError | IndexError | OtherException str

datatype exn = Exn exn_class str

fun str_exn :: "exn \<Rightarrow> str" where
  "str_exn (Exn c m) = m"

text \<open>
  A handler starts with \<open>if not args or key not in args: raise ...\<close> and then reads
  \<open>args[key]\<close>. \<open>None\<close> and the empty dict are falsy; a dict holds one value for a
  key. \<open>arg args key\<close> is \<open>None\<close> where the test raises and the value \<open>args[key]\<close>
  otherwise.
\<close>

definition arg :: "pydict option \<Rightarrow> str \<Rightarrow> pyval option" where
  "arg args k = (case args of None \<Rightarrow> None | Some d \<Rightarrow> if d = [] then None else map_of d k)"

section \<open>String operations\<close>

text \<open>\<open>s.split(sep)\<close> for a one-character separator.\<close>

fun split_from :: "nat \<Rightarrow> str \<Rightarrow> str \<Rightarrow> str list" where
  "split_from sep cur [] = [cur]"
| "split_from sep cur (c # cs) =
     (if c = sep then cur # split_from sep [] cs else split_from sep (cur @ [c]) cs)"

definition split :: "str \<Rightarrow> nat \<Rightarrow> str list" where
  "split s sep = split_from sep [] s"

text \<open>\<open>xs[-1]\<close>: the last element, IndexError on an empty list.\<close>

definition index_last :: "'a list \<Rightarrow> exn + 'a" where
  "index_last xs =
     (case rev xs of [] \<Rightarrow> Inl (Exn IndexError (ascii ''list index out of range''))
      | x # _ \<Rightarrow> Inr x)"

text \<open>
  \<open>s.strip()\<close> removes the characters with \<open>str.isspace\<close> from both ends.
\<close>

definition isspace :: "nat \<Rightarrow> bool" where
  "isspace c = (c \<in> {9, 10, 11, 12, 13, 28, 29, 30, 31, 32, 133, 160, 5760,
                      8192, 8193, 8194, 8195, 8196, 8197, 8198, 8199, 8200, 8201, 8202,
                      8232, 8233, 8239, 8287, 12288})"

definition strip :: "str \<Rightarrow> str" where
  "strip s = rev (dropWhile isspace (rev (dropWhile isspace s)))"

section \<open>Data model\<close>

record SearchResultModel =
  sr_id :: str
  sr_title :: str
  sr_text :: str
  sr_url :: str

text \<open>\<open>types.TextContent(type=..., text=..., metadata=...)\<close>\<close>

record TextContent =
  tc_type :: str
  tc_text :: str
  tc_metadata :: "pydict option"

text \<open>
  An \<open>xml.etree.ElementTree\<close> element, as far as the server reads it: its tag, its
  text (\<open>None\<close> when the element has none) and its child elements in document order.
\<close>

datatype element = Element (el_tag: str) (el_text: "str option") (el_children: "element list")

text \<open>\<open>e.findall(tag)\<close>: the children with that tag; \<open>e.find(tag)\<close>: the first or \<open>None\<close>.\<close>

definition findall :: "element \<Rightarrow> str \<Rightarrow> element list" where
  "findall e t = filter (\<lambda>c. el_tag c = t) (el_children e)"

definition find_child :: "element \<Rightarrow> str \<Rightarrow> element option" where
  "find_child e t = List.find (\<lambda>c. el_tag c = t) (el_children e)"

section \<open>Collaborators and effects\<close>

text \<open>
  The collaborators outside the server: the HTTP GET with the read of the response
  body, the XML parser \<open>ET.fromstring\<close>, and \<open>process_latex_source\<close> of the
  \<open>arxiv_to_prompt\<close> package. Each returns a value or raises.
\<close>

record world =
  http_get :: "str \<Rightarrow> exn + str"
  fromstring :: "str \<Rightarrow> exn + element"
  process_latex_source :: "pyval \<Rightarrow> exn + str"

text \<open>What a handler does besides returning: log records and calls of collaborators.\<close>

datatype event = LogInfo str | LogException str | HttpGet str | ProcessLatexSource pyval

type_synonym outcome = "(exn + TextContent list) \<times> event list"

section \<open>The search tool\<close>

definition newline :: str where
  "newline = [10]"

text \<open>\<open>ARXIV_API_URL.format(query)\<close>\<close>

definition ARXIV_API_URL_format :: "pyval \<Rightarrow> str" where
  "ARXIV_API_URL_format query =
     ascii ''https://export.arxiv.org/api/query?search_query='' @ py_str query
       @ ascii ''&max_results=10''"

text \<open>
  Reading an attribute or calling a method of \<open>None\<close> raises AttributeError:
  \<open>'NoneType' object has no attribute 'text'\<close>.
\<close>

definition none_has_no_attribute :: "string \<Rightarrow> exn" where
  "none_has_no_attribute a =
     Exn AttributeError
       ([39] @ ascii ''NoneType'' @ [39] @ ascii '' object has no attribute '' @ [39] @ ascii a @ [39])"

text \<open>\<open>entry.find(tag).text\<close>, then a method \<open>m\<close> of that text.\<close>

definition find_text :: "element \<Rightarrow> str \<Rightarrow> string \<Rightarrow> exn + str" where
  "find_text entry t m =
     (case find_child entry t of
        None \<Rightarrow> Inl (none_has_no_attribute ''text'')
      | Some e \<Rightarrow> (case el_text e of None \<Rightarrow> Inl (none_has_no_attribute m) | Some s \<Rightarrow> Inr s))"

text \<open>
  The string literal of line 111 of \<open>server/main.py\<close>: the source file holds the three
  code points U+00E2, U+20AC, U+00A6 between the quotes (the bytes C3 A2, E2 82 AC,
  C2 A6 of the UTF-8 file).
\<close>

definition ELLIPSIS :: str where
  "ELLIPSIS = [226, 8364, 166]"

text \<open>\<open>summary[:500] + (ELLIPSIS if len(summary) > 500 else "")\<close>\<close>

definition truncate_summary :: "str \<Rightarrow> str" where
  "truncate_summary summary = take 500 summary @ (if length summary > 500 then ELLIPSIS else [])"

text \<open>The body of the loop over the entries: one record, or the exception raised.\<close>

definition entry_record :: "element \<Rightarrow> exn + SearchResultModel" where
  "entry_record entry =
     (case find_text entry (ascii ''{http://www.w3.org/2005/Atom}id'') ''split'' of
        Inl x \<Rightarrow> Inl x
      | Inr id_text \<Rightarrow>
     (case index_last (split id_text 47) of
        Inl x \<Rightarrow> Inl x
      | Inr arxiv_id \<Rightarrow>
     (case find_text entry (ascii ''{http://www.w3.org/2005/Atom}title'') ''strip'' of
        Inl x \<Rightarrow> Inl x
      | Inr title_text \<Rightarrow>
     (case find_text entry (ascii ''{http://www.w3.org/2005/Atom}summary'') ''strip'' of
        Inl x \<Rightarrow> Inl x
      | Inr summary_text \<Rightarrow>
          Inr \<lparr>sr_id = arxiv_id,
               sr_title = strip title_text,
               sr_text = truncate_summary (strip summary_text),
               sr_url = ascii ''https://arxiv.org/abs/'' @ arxiv_id\<rparr>))))"

text \<open>The loop: \<open>results\<close> grows by one record per entry; an exception ends it.\<close>

fun entries_loop :: "element list \<Rightarrow> SearchResultModel list \<Rightarrow> exn + SearchResultModel list" where
  "entries_loop [] results = Inr results"
| "entries_loop (entry # rest) results =
     (case entry_record entry of
        Inl x \<Rightarrow> Inl x
      | Inr r \<Rightarrow> entries_loop rest (results @ [r]))"

text \<open>Lines 117 to 129: the results as one text content.\<close>

definition format_record :: "SearchResultModel \<Rightarrow> str" where
  "format_record r =
     ascii ''ID: '' @ sr_id r @ newline
     @ ascii ''Title: '' @ sr_title r @ newline
     @ ascii ''Summary: '' @ sr_text r @ newline
     @ ascii ''URL: '' @ sr_url r @ newline @ newline"

fun format_loop :: "SearchResultModel list \<Rightarrow> str \<Rightarrow> str" where
  "format_loop [] formatted_results = formatted_results"
| "format_loop (r # rs) formatted_results = format_loop rs (formatted_results @ format_record r)"

definition format_results :: "SearchResultModel list \<Rightarrow> TextContent list" where
  "format_results results =
     (if results = [] then
        [\<lparr>tc_type = ascii ''text'', tc_text = ascii ''No papers found for the given query.'',
          tc_metadata = None\<rparr>]
      else
        [\<lparr>tc_type = ascii ''text'',
          tc_text = format_loop results (ascii ''Search Results:'' @ newline @ newline),
          tc_metadata = None\<rparr>])"

definition handle_search :: "world \<Rightarrow> pydict option \<Rightarrow> outcome" where
  "handle_search w args =
     (case arg args (ascii ''query'') of
        None \<Rightarrow> (Inl (Exn ValueError (ascii ''Missing required argument: query'')), [])
      | Some query \<Rightarrow>
          (let url = ARXIV_API_URL_format query in
           ((case http_get w url of
              Inl x \<Rightarrow> Inl x
            | Inr data \<Rightarrow>
           (case fromstring w data of
              Inl x \<Rightarrow> Inl x
            | Inr root \<Rightarrow>
           (case entries_loop (findall root (ascii ''{http://www.w3.org/2005/Atom}entry'')) [] of
              Inl x \<Rightarrow> Inl x
            | Inr results \<Rightarrow> Inr (format_results results)))),
            [HttpGet url])))"

section \<open>The fetch tool\<close>

definition instructions :: str where
  "instructions =
     newline @ newline @ ascii ''IMPORTANT INSTRUCTIONS FOR RENDERING:'' @ newline
     @ ascii ''When discussing this paper, please use dollar sign notation ($...$) ''
     @ ascii ''for inline equations and double dollar signs ($...$) for display ''
     @ ascii ''equations when providing responses that include LaTeX mathematical expressions.''"

definition handle_fetch :: "world \<Rightarrow> pydict option \<Rightarrow> outcome" where
  "handle_fetch w args =
     (case arg args (ascii ''id'') of
        None \<Rightarrow> (Inl (Exn ValueError (ascii ''Missing required argument: id'')), [])
      | Some arxiv_id \<Rightarrow>
          (let info = LogInfo (ascii ''Fetching & processing arXiv paper: '' @ py_str arxiv_id) in
           (case process_latex_source w arxiv_id of
              Inr flattened \<Rightarrow>
                (Inr [\<lparr>tc_type = ascii ''text'',
                       tc_text = flattened @ instructions,
                       tc_metadata = Some
                         [(ascii ''id'', arxiv_id),
                          (ascii ''title'', PStr (ascii ''arXiv:'' @ py_str arxiv_id)),
                          (ascii ''url'', PStr (ascii ''https://arxiv.org/abs/'' @ py_str arxiv_id)),
                          (ascii ''source'', PStr (ascii ''arXiv''))]\<rparr>],
                 [info, ProcessLatexSource arxiv_id])
            | Inl exc \<Rightarrow>
                (Inr [\<lparr>tc_type = ascii ''text'',
                       tc_text = str_exn exc,
                       tc_metadata = Some
                         [(ascii ''id'', arxiv_id),
                          (ascii ''title'', PStr (ascii ''Error: '' @ py_str arxiv_id)),
                          (ascii ''url'', PStr (ascii ''https://arxiv.org/abs/'' @ py_str arxiv_id))]\<rparr>],
                 [info, ProcessLatexSource arxiv_id,
                  LogException (ascii ''Error processing arXiv paper '' @ py_str arxiv_id)]))))"

section \<open>The dispatcher\<close>

definition handle_call_tool :: "world \<Rightarrow> str \<Rightarrow> pydict option \<Rightarrow> outcome" where
  "handle_call_tool w name args =
     (if name = ascii ''search'' then handle_search w args
      else if name = ascii ''fetch'' then handle_fetch w args
      else (Inl (Exn ValueError (ascii ''Unknown tool: '' @ name)), []))"

section \<open>Vocabulary of the properties\<close>

text \<open>
  The lines of a text are its pieces between line feeds, \<open>s.split("\\n")\<close>; the ID
  lines are those that start with \<open>ID:\<close>.
\<close>

definition lines :: "str \<Rightarrow> str list" where
  "lines s = split s 10"

definition id_lines :: "str \<Rightarrow> str list" where
  "id_lines s = filter (\<lambda>l. take 3 l = ascii ''ID:'') (lines s)"

text \<open>
  A world for running the handlers on concrete inputs: the GET answers with an empty
  body, the XML parser with the given tree, the flattening with the given result.
\<close>

definition fixed_world :: "element \<Rightarrow> exn + str \<Rightarrow> world" where
  "fixed_world root flat =
     \<lparr>http_get = (\<lambda>url. Inr []), fromstring = (\<lambda>data. Inr root),
      process_latex_source = (\<lambda>i. flat)\<rparr>"

section \<open>Basic facts\<close>

lemma ascii_eq_iff [simp]: "ascii a = ascii b \<longleftrightarrow> a = b"
  unfolding ascii_def by (simp add: inj_of_char)

lemma ascii_append: "ascii (a @ b) = ascii a @ ascii b"
  by (simp add: ascii_def)

lemma handle_call_tool_search: "handle_call_tool w (ascii ''search'') args = handle_search w args"
  by (simp add: handle_call_tool_def)

lemma handle_call_tool_fetch: "handle_call_tool w (ascii ''fetch'') args = handle_fetch w args"
  by (simp add: handle_call_tool_def)

lemma arg_None [simp]: "arg None k = None"
  by (simp add: arg_def)

lemma arg_empty [simp]: "arg (Some []) k = None"
  by (simp add: arg_def)

lemma arg_present: "map_of d k = Some v \<Longrightarrow> arg (Some d) k = Some v"
  by (auto simp: arg_def)

lemma arg_absent: "map_of d k = None \<Longrightarrow> arg (Some d) k = None"
  by (auto simp: arg_def)

lemma find_child_eval [simp]:
  "find_child (Element t0 x cs) t = List.find (\<lambda>c. el_tag c = t) cs"
  by (simp add: find_child_def)

section \<open>The dispatcher rejects what it cannot route\<close>

text \<open>
  C9. For every tool name other than \<open>search\<close> and \<open>fetch\<close>, the dispatcher raises
  a ValueError whose message carries the name; nothing is returned, no collaborator is
  called and nothing is logged.
\<close>

theorem unknown_tool_rejected:
  assumes "name \<noteq> ascii ''search''" and "name \<noteq> ascii ''fetch''"
  shows "handle_call_tool w name args =
           (Inl (Exn ValueError (ascii ''Unknown tool: '' @ name)), [])"
  using assms by (simp add: handle_call_tool_def)

theorem unknown_tool_rejected_witness:
  "ascii ''delete'' \<noteq> ascii ''search'' \<and> ascii ''delete'' \<noteq> ascii ''fetch''
   \<and> handle_call_tool (fixed_world (Element [] None []) (Inr []))
         (ascii ''delete'') (Some [(ascii ''id'', PStr (ascii ''1810.04805''))])
       = (Inl (Exn ValueError (ascii ''Unknown tool: '' @ ascii ''delete'')), [])"
  using unknown_tool_rejected [of "ascii ''delete''"
      "fixed_world (Element [] None []) (Inr [])"
      "Some [(ascii ''id'', PStr (ascii ''1810.04805''))]"]
  by simp

text \<open>
  C10. For both tools a call without an argument mapping (\<open>None\<close>) behaves as a call
  with the empty mapping: the ValueError naming the missing argument (\<open>query\<close> for
  search, \<open>id\<close> for fetch) is raised before any collaborator is called.
\<close>

theorem none_arguments_as_empty:
  "handle_call_tool w (ascii ''search'') None = handle_call_tool w (ascii ''search'') (Some [])
   \<and> handle_call_tool w (ascii ''search'') None
       = (Inl (Exn ValueError (ascii ''Missing required argument: query'')), [])
   \<and> handle_call_tool w (ascii ''fetch'') None = handle_call_tool w (ascii ''fetch'') (Some [])
   \<and> handle_call_tool w (ascii ''fetch'') None
       = (Inl (Exn ValueError (ascii ''Missing required argument: id'')), [])"
  by (simp add: handle_call_tool_search handle_call_tool_fetch handle_search_def handle_fetch_def)

section \<open>Validation of the query argument\<close>

text \<open>
  C2, as the code has it. Search is rejected with the ValueError naming \<open>query\<close>,
  before any network call, when there is no argument mapping or the mapping has no
  \<open>query\<close> key.
\<close>

theorem search_requires_query_present:
  assumes "args = None \<or> (\<exists>d. args = Some d \<and> map_of d (ascii ''query'') = None)"
  shows "handle_call_tool w (ascii ''search'') args =
           (Inl (Exn ValueError (ascii ''Missing required argument: query'')), [])"
  using assms
  by (auto simp: handle_call_tool_search handle_search_def arg_absent)

theorem search_requires_query_present_witness:
  "map_of [(ascii ''q'', PStr (ascii ''cats''))] (ascii ''query'') = None
   \<and> handle_call_tool (fixed_world (Element [] None []) (Inr [])) (ascii ''search'')
       (Some [(ascii ''q'', PStr (ascii ''cats''))])
     = (Inl (Exn ValueError (ascii ''Missing required argument: query'')), [])"
  using search_requires_query_present [of "Some [(ascii ''q'', PStr (ascii ''cats''))]"
      "fixed_world (Element [] None []) (Inr [])"]
  by simp

text \<open>
  C2 as stated fails for the empty string: only the presence of the key is tested, so
  \<open>{"query": ""}\<close> passes the test and the GET is issued with an empty search term.
\<close>

theorem empty_query_not_rejected:
  "fst (handle_call_tool (fixed_world (Element (ascii ''{http://www.w3.org/2005/Atom}feed'') None []) (Inr []))
         (ascii ''search'') (Some [(ascii ''query'', PStr [])]))
     \<noteq> Inl (Exn ValueError (ascii ''Missing required argument: query''))
   \<and> snd (handle_call_tool (fixed_world (Element (ascii ''{http://www.w3.org/2005/Atom}feed'') None []) (Inr []))
         (ascii ''search'') (Some [(ascii ''query'', PStr [])]))
     = [HttpGet (ascii ''https://export.arxiv.org/api/query?search_query=&max_results=10'')]"
  by (simp add: handle_call_tool_search handle_search_def arg_def fixed_world_def
      ARXIV_API_URL_format_def findall_def format_results_def ascii_append [symmetric])

section \<open>The two answers of fetch\<close>

text \<open>
  C4. When \<open>id\<close> is present and \<open>process_latex_source\<close> returns the flattened text,
  fetch returns exactly one text content: the flattened text followed by the fixed
  rendering instructions, with metadata \<open>id\<close> (the given identifier), \<open>title\<close>
  (\<open>arXiv:\<close> and the identifier), \<open>url\<close> (\<open>https://arxiv.org/abs/\<close> and the
  identifier) and \<open>source\<close> (\<open>arXiv\<close>).
\<close>

theorem fetch_success:
  assumes "args = Some d" and "map_of d (ascii ''id'') = Some arxiv_id"
    and "process_latex_source w arxiv_id = Inr flattened"
  shows "handle_call_tool w (ascii ''fetch'') args =
           (Inr [\<lparr>tc_type = ascii ''text'', tc_text = flattened @ instructions,
                 tc_metadata = Some
                   [(ascii ''id'', arxiv_id),
                    (ascii ''title'', PStr (ascii ''arXiv:'' @ py_str arxiv_id)),
                    (ascii ''url'', PStr (ascii ''https://arxiv.org/abs/'' @ py_str arxiv_id)),
                    (ascii ''source'', PStr (ascii ''arXiv''))]\<rparr>],
            [LogInfo (ascii ''Fetching & processing arXiv paper: '' @ py_str arxiv_id),
             ProcessLatexSource arxiv_id])"
  using assms by (simp add: handle_call_tool_fetch handle_fetch_def arg_present)

theorem fetch_success_witness:
  "map_of [(ascii ''id'', PStr (ascii ''1810.04805''))] (ascii ''id'')
     = Some (PStr (ascii ''1810.04805''))
   \<and> process_latex_source (fixed_world (Element [] None []) (Inr (ascii ''E = mc^2'')))
         (PStr (ascii ''1810.04805'')) = Inr (ascii ''E = mc^2'')
   \<and> handle_call_tool (fixed_world (Element [] None []) (Inr (ascii ''E = mc^2'')))
         (ascii ''fetch'') (Some [(ascii ''id'', PStr (ascii ''1810.04805''))])
       = (Inr [\<lparr>tc_type = ascii ''text'', tc_text = ascii ''E = mc^2'' @ instructions,
               tc_metadata = Some
                 [(ascii ''id'', PStr (ascii ''1810.04805'')),
                  (ascii ''title'', PStr (ascii ''arXiv:'' @ ascii ''1810.04805'')),
                  (ascii ''url'', PStr (ascii ''https://arxiv.org/abs/'' @ ascii ''1810.04805'')),
                  (ascii ''source'', PStr (ascii ''arXiv''))]\<rparr>],
          [LogInfo (ascii ''Fetching & processing arXiv paper: '' @ ascii ''1810.04805''),
           ProcessLatexSource (PStr (ascii ''1810.04805''))])"
  using fetch_success [of "Some [(ascii ''id'', PStr (ascii ''1810.04805''))]"
      "[(ascii ''id'', PStr (ascii ''1810.04805''))]" "PStr (ascii ''1810.04805'')"
      "fixed_world (Element [] None []) (Inr (ascii ''E = mc^2''))" "ascii ''E = mc^2''"]
  by (simp add: fixed_world_def)

text \<open>
  C1. When \<open>id\<close> is present and \<open>process_latex_source\<close> raises, the call is not
  rejected: fetch returns exactly one text content whose text is the text of the
  exception and whose metadata title is \<open>Error: \<close> followed by the identifier. The
  exception is logged and goes no further.
\<close>

theorem fetch_failure_recovered:
  assumes "args = Some d" and "map_of d (ascii ''id'') = Some arxiv_id"
    and "process_latex_source w arxiv_id = Inl exc"
  shows "handle_call_tool w (ascii ''fetch'') args =
           (Inr [\<lparr>tc_type = ascii ''text'', tc_text = str_exn exc,
                 tc_metadata = Some
                   [(ascii ''id'', arxiv_id),
                    (ascii ''title'', PStr (ascii ''Error: '' @ py_str arxiv_id)),
                    (ascii ''url'', PStr (ascii ''https://arxiv.org/abs/'' @ py_str arxiv_id))]\<rparr>],
            [LogInfo (ascii ''Fetching & processing arXiv paper: '' @ py_str arxiv_id),
             ProcessLatexSource arxiv_id,
             LogException (ascii ''Error processing arXiv paper '' @ py_str arxiv_id)])"
  using assms by (simp add: handle_call_tool_fetch handle_fetch_def arg_present)

theorem fetch_failure_recovered_witness:
  "map_of [(ascii ''id'', PStr (ascii ''0000.00000''))] (ascii ''id'')
     = Some (PStr (ascii ''0000.00000''))
   \<and> process_latex_source
         (fixed_world (Element [] None [])
            (Inl (Exn (OtherException (ascii ''RuntimeError'')) (ascii ''download failed''))))
         (PStr (ascii ''0000.00000''))
       = Inl (Exn (OtherException (ascii ''RuntimeError'')) (ascii ''download failed''))
   \<and> handle_call_tool
         (fixed_world (Element [] None [])
            (Inl (Exn (OtherException (ascii ''RuntimeError'')) (ascii ''download failed''))))
         (ascii ''fetch'') (Some [(ascii ''id'', PStr (ascii ''0000.00000''))])
       = (Inr [\<lparr>tc_type = ascii ''text'', tc_text = ascii ''download failed'',
               tc_metadata = Some
                 [(ascii ''id'', PStr (ascii ''0000.00000'')),
                  (ascii ''title'', PStr (ascii ''Error: '' @ ascii ''0000.00000'')),
                  (ascii ''url'', PStr (ascii ''https://arxiv.org/abs/'' @ ascii ''0000.00000''))]\<rparr>],
          [LogInfo (ascii ''Fetching & processing arXiv paper: '' @ ascii ''0000.00000''),
           ProcessLatexSource (PStr (ascii ''0000.00000'')),
           LogException (ascii ''Error processing arXiv paper '' @ ascii ''0000.00000'')])"
  using fetch_failure_recovered [of "Some [(ascii ''id'', PStr (ascii ''0000.00000''))]"
      "[(ascii ''id'', PStr (ascii ''0000.00000''))]" "PStr (ascii ''0000.00000'')"
      "fixed_world (Element [] None [])
         (Inl (Exn (OtherException (ascii ''RuntimeError'')) (ascii ''download failed'')))"
      "Exn (OtherException (ascii ''RuntimeError'')) (ascii ''download failed'')"]
  by (simp add: fixed_world_def)

section \<open>Truncation of the summary\<close>

lemma truncate_summary_short: "length s \<le> 500 \<Longrightarrow> truncate_summary s = s"
  by (simp add: truncate_summary_def)

lemma truncate_summary_long:
  "500 < length s \<Longrightarrow>
     truncate_summary s = take 500 s @ ELLIPSIS \<and> length (truncate_summary s) = 503"
  by (simp add: truncate_summary_def ELLIPSIS_def)

text \<open>
  C3. A summary of at most 500 characters is kept as it is
  (\<open>truncate_summary_short\<close>). A longer one is cut to its first 500 characters, and
  what the code appends is the three-character literal of line 111, not one ellipsis
  character: for a summary of 501 letters \<open>a\<close> the text has 503 characters, not
  501.
\<close>

theorem truncate_summary_501:
  "truncate_summary (replicate 501 97) = replicate 500 97 @ [226, 8364, 166]
   \<and> length (truncate_summary (replicate 501 97)) = 503"
  by (simp add: truncate_summary_def ELLIPSIS_def)

section \<open>Splitting at a separator\<close>

lemma split_from_not_Nil [simp]: "split_from sep cur s \<noteq> []"
  by (induction s arbitrary: cur) auto

lemma split_from_free:
  "sep \<notin> set cur \<Longrightarrow> \<forall>x \<in> set (split_from sep cur s). sep \<notin> set x"
proof (induction s arbitrary: cur)
  case Nil
  then show ?case by simp
next
  case (Cons c cs)
  show ?case
  proof (cases "c = sep")
    case True
    with Cons.IH [of "[]"] Cons.prems show ?thesis by simp
  next
    case False
    with Cons.IH [of "cur @ [c]"] Cons.prems show ?thesis by simp
  qed
qed

lemma split_from_last_suffix:
  "\<exists>a. a @ last (split_from sep cur s) = cur @ s \<and> (a = [] \<or> last a = sep)"
proof (induction s arbitrary: cur)
  case Nil
  show ?case by simp
next
  case (Cons c cs)
  show ?case
  proof (cases "c = sep")
    case True
    from Cons.IH [of "[]"] obtain a
      where a: "a @ last (split_from sep [] cs) = cs" and "a = [] \<or> last a = sep"
      by auto
    then have "(cur @ sep # a) @ last (split_from sep [] cs) = cur @ sep # cs"
      and "last (cur @ sep # a) = sep"
      by auto
    with True show ?thesis
      by (metis split_from.simps(2) last_ConsR split_from_not_Nil)
  next
    case False
    with Cons.IH [of "cur @ [c]"] show ?thesis by simp
  qed
qed

lemma split_from_line:
  "sep \<notin> set x \<Longrightarrow> split_from sep cur (x @ sep # rest) = (cur @ x) # split_from sep [] rest"
  by (induction x arbitrary: cur) auto

lemma index_last_split: "index_last (split t sep) = Inr (last (split t sep))"
proof -
  have "rev (split t sep) \<noteq> []" by (simp add: split_def)
  then obtain x xs where "rev (split t sep) = x # xs" by (cases "rev (split t sep)") auto
  moreover from this have "last (split t sep) = x"
    by (metis list.sel(1) hd_rev)
  ultimately show ?thesis by (simp add: index_last_def)
qed

lemma last_split_free: "sep \<notin> set (last (split t sep))"
  using split_from_free [of sep "[]" t] last_in_set [of "split_from sep [] t"]
  by (simp add: split_def)

lemma last_split_suffix: "\<exists>a. a @ last (split t sep) = t \<and> (a = [] \<or> last a = sep)"
  using split_from_last_suffix [of sep "[]" t] by (simp add: split_def)

section \<open>Feed entries\<close>

lemma find_text_Inr:
  "find_child entry t = Some e \<Longrightarrow> el_text e = Some s \<Longrightarrow> find_text entry t m = Inr s"
  by (simp add: find_text_def)

lemma find_text_missing:
  "find_child entry t = None \<Longrightarrow> find_text entry t m = Inl (none_has_no_attribute ''text'')"
  by (simp add: find_text_def)

lemma find_text_Inl: "find_text entry t m = Inl x \<Longrightarrow> \<exists>msg. x = Exn AttributeError msg"
  by (auto simp: find_text_def none_has_no_attribute_def split: option.splits)

text \<open>
  C5. For an entry whose id, title and summary are present, the record is built and its
  id is the last segment of the text of the id field: the field is some \<open>a\<close> followed
  by the id, where \<open>a\<close> is empty or ends with \<open>/\<close> (code point 47), and the id holds
  no \<open>/\<close>. Nothing else is removed, so a version suffix stays.
\<close>

theorem derived_id_last_segment:
  assumes "find_child entry (ascii ''{http://www.w3.org/2005/Atom}id'') = Some e1"
    and "el_text e1 = Some id_text"
    and "find_child entry (ascii ''{http://www.w3.org/2005/Atom}title'') = Some e2"
    and "el_text e2 = Some title_text"
    and "find_child entry (ascii ''{http://www.w3.org/2005/Atom}summary'') = Some e3"
    and "el_text e3 = Some summary_text"
  shows "\<exists>r a. entry_record entry = Inr r
           \<and> a @ sr_id r = id_text \<and> (a = [] \<or> last a = 47) \<and> 47 \<notin> set (sr_id r)"
proof -
  let ?i = "last (split id_text 47)"
  have "entry_record entry =
      Inr \<lparr>sr_id = ?i, sr_title = strip title_text,
           sr_text = truncate_summary (strip summary_text),
           sr_url = ascii ''https://arxiv.org/abs/'' @ ?i\<rparr>"
    using assms by (simp add: entry_record_def find_text_Inr index_last_split)
  moreover obtain a where "a @ ?i = id_text" and "a = [] \<or> last a = 47"
    using last_split_suffix [of id_text 47] by auto
  moreover have "47 \<notin> set ?i" by (rule last_split_free)
  ultimately show ?thesis by auto
qed

theorem derived_id_last_segment_witness:
  "entry_record
     (Element (ascii ''{http://www.w3.org/2005/Atom}entry'') None
        [Element (ascii ''{http://www.w3.org/2005/Atom}id'')
           (Some (ascii ''http://arxiv.org/abs/2403.12345v2'')) [],
         Element (ascii ''{http://www.w3.org/2005/Atom}title'') (Some (ascii ''A title'')) [],
         Element (ascii ''{http://www.w3.org/2005/Atom}summary'') (Some (ascii ''Short.'')) []])
     = Inr \<lparr>sr_id = ascii ''2403.12345v2'', sr_title = ascii ''A title'',
            sr_text = ascii ''Short.'',
            sr_url = ascii ''https://arxiv.org/abs/'' @ ascii ''2403.12345v2''\<rparr>
   \<and> (\<exists>r a. entry_record
        (Element (ascii ''{http://www.w3.org/2005/Atom}entry'') None
          [Element (ascii ''{http://www.w3.org/2005/Atom}id'')
             (Some (ascii ''http://arxiv.org/abs/2403.12345v2'')) [],
           Element (ascii ''{http://www.w3.org/2005/Atom}title'') (Some (ascii ''A title'')) [],
           Element (ascii ''{http://www.w3.org/2005/Atom}summary'') (Some (ascii ''Short.'')) []])
        = Inr r
      \<and> a @ sr_id r = ascii ''http://arxiv.org/abs/2403.12345v2''
      \<and> (a = [] \<or> last a = 47) \<and> 47 \<notin> set (sr_id r))"
proof -
  let ?e1 = "Element (ascii ''{http://www.w3.org/2005/Atom}id'')
           (Some (ascii ''http://arxiv.org/abs/2403.12345v2'')) []"
  let ?e2 = "Element (ascii ''{http://www.w3.org/2005/Atom}title'') (Some (ascii ''A title'')) []"
  let ?e3 = "Element (ascii ''{http://www.w3.org/2005/Atom}summary'') (Some (ascii ''Short.'')) []"
  let ?entry = "Element (ascii ''{http://www.w3.org/2005/Atom}entry'') None [?e1, ?e2, ?e3]"
  have h1: "find_child ?entry (ascii ''{http://www.w3.org/2005/Atom}id'') = Some ?e1" by simp
  have h2: "find_child ?entry (ascii ''{http://www.w3.org/2005/Atom}title'') = Some ?e2" by simp
  have h3: "find_child ?entry (ascii ''{http://www.w3.org/2005/Atom}summary'') = Some ?e3" by simp
  have seg: "last (split (ascii ''http://arxiv.org/abs/2403.12345v2'') 47) = ascii ''2403.12345v2''"
    by (simp add: split_def ascii_def)
  have s2: "strip (ascii ''A title'') = ascii ''A title''"
    by (simp add: strip_def ascii_def isspace_def)
  have s3: "truncate_summary (strip (ascii ''Short.'')) = ascii ''Short.''"
    by (simp add: strip_def ascii_def isspace_def truncate_summary_def)
  have "entry_record ?entry =
      Inr \<lparr>sr_id = ascii ''2403.12345v2'', sr_title = ascii ''A title'',
            sr_text = ascii ''Short.'',
            sr_url = ascii ''https://arxiv.org/abs/'' @ ascii ''2403.12345v2''\<rparr>"
    by (simp add: entry_record_def find_text_def index_last_split seg s2 s3)
  moreover note derived_id_last_segment [OF h1 _ h2 _ h3, of "ascii ''http://arxiv.org/abs/2403.12345v2''" "ascii ''A title''" "ascii ''Short.''"]
  ultimately show ?thesis by simp
qed

lemma entry_record_id_free: "entry_record e = Inr r \<Longrightarrow> 47 \<notin> set (sr_id r)"
  using last_split_free [of 47]
  by (auto simp: entry_record_def index_last_split split: sum.splits)

lemma entries_loop_ids_free:
  "entries_loop es acc = Inr rs \<Longrightarrow> \<forall>r \<in> set acc. 47 \<notin> set (sr_id r)
     \<Longrightarrow> \<forall>r \<in> set rs. 47 \<notin> set (sr_id r)"
proof (induction es arbitrary: acc)
  case Nil
  then show ?case by simp
next
  case (Cons e es)
  from Cons.prems(1) obtain r
    where r: "entry_record e = Inr r" and rest: "entries_loop es (acc @ [r]) = Inr rs"
    by (auto split: sum.splits)
  from r have "47 \<notin> set (sr_id r)" by (rule entry_record_id_free)
  with Cons.prems(2) have "\<forall>q \<in> set (acc @ [r]). 47 \<notin> set (sr_id q)" by simp
  with Cons.IH [OF rest] show ?case by blast
qed

lemma entries_loop_length:
  "entries_loop es acc = Inr rs \<Longrightarrow> length rs = length acc + length es"
  by (induction es arbitrary: acc) (auto split: sum.splits)

lemma entry_record_Inl: "entry_record entry = Inl x \<Longrightarrow> \<exists>msg. x = Exn AttributeError msg"
  by (auto simp: entry_record_def index_last_split split: sum.splits dest: find_text_Inl)

lemma entry_record_missing:
  assumes "t \<in> {ascii ''{http://www.w3.org/2005/Atom}id'',
                 ascii ''{http://www.w3.org/2005/Atom}title'',
                 ascii ''{http://www.w3.org/2005/Atom}summary''}"
    and "find_child entry t = None"
  shows "\<exists>x. entry_record entry = Inl x"
  using assms by (auto simp: entry_record_def find_text_missing split: sum.splits)

lemma entries_loop_Inl:
  "entries_loop es acc = Inl x \<Longrightarrow> \<exists>msg. x = Exn AttributeError msg"
  by (induction es arbitrary: acc) (auto split: sum.splits dest: entry_record_Inl)

lemma entries_loop_aborts:
  "entry \<in> set es \<Longrightarrow> entry_record entry = Inl x \<Longrightarrow> \<exists>y. entries_loop es acc = Inl y"
  by (induction es arbitrary: acc) (auto split: sum.splits)

text \<open>
  C6. When the feed holds an entry without an id, a title or a summary element, the
  search call is rejected: the AttributeError raised on that entry (or on an earlier
  broken one) leaves the loop and the handler, and no content is returned for the
  other entries.
\<close>

theorem missing_field_aborts_search:
  assumes "args = Some d" and "map_of d (ascii ''query'') = Some query"
    and "http_get w (ARXIV_API_URL_format query) = Inr data"
    and "fromstring w data = Inr root"
    and "entry \<in> set (findall root (ascii ''{http://www.w3.org/2005/Atom}entry''))"
    and "t \<in> {ascii ''{http://www.w3.org/2005/Atom}id'',
                ascii ''{http://www.w3.org/2005/Atom}title'',
                ascii ''{http://www.w3.org/2005/Atom}summary''}"
    and "find_child entry t = None"
  shows "\<exists>msg. handle_call_tool w (ascii ''search'') args =
           (Inl (Exn AttributeError msg), [HttpGet (ARXIV_API_URL_format query)])"
proof -
  from assms(6,7) obtain x where "entry_record entry = Inl x"
    using entry_record_missing by blast
  with assms(5) obtain y
    where y: "entries_loop (findall root (ascii ''{http://www.w3.org/2005/Atom}entry'')) [] = Inl y"
    using entries_loop_aborts by blast
  then obtain msg where "y = Exn AttributeError msg"
    using entries_loop_Inl by blast
  with y assms(1-4) show ?thesis
    by (simp add: handle_call_tool_search handle_search_def arg_present)
qed

theorem missing_field_aborts_search_witness:
  "handle_call_tool
     (fixed_world
        (Element (ascii ''{http://www.w3.org/2005/Atom}feed'') None
           [Element (ascii ''{http://www.w3.org/2005/Atom}entry'') None
              [Element (ascii ''{http://www.w3.org/2005/Atom}id'') (Some (ascii ''http://arxiv.org/abs/1'')) [],
               Element (ascii ''{http://www.w3.org/2005/Atom}title'') (Some (ascii ''T'')) [],
               Element (ascii ''{http://www.w3.org/2005/Atom}summary'') (Some (ascii ''S'')) []],
            Element (ascii ''{http://www.w3.org/2005/Atom}entry'') None
              [Element (ascii ''{http://www.w3.org/2005/Atom}id'') (Some (ascii ''http://arxiv.org/abs/2'')) [],
               Element (ascii ''{http://www.w3.org/2005/Atom}summary'') (Some (ascii ''S'')) []]])
        (Inr []))
     (ascii ''search'') (Some [(ascii ''query'', PStr (ascii ''cats''))])
   = (Inl (none_has_no_attribute ''text''),
      [HttpGet (ARXIV_API_URL_format (PStr (ascii ''cats'')))])
   \<and> (\<exists>msg. none_has_no_attribute ''text'' = Exn AttributeError msg)"
proof -
  let ?good = "Element (ascii ''{http://www.w3.org/2005/Atom}entry'') None
              [Element (ascii ''{http://www.w3.org/2005/Atom}id'') (Some (ascii ''http://arxiv.org/abs/1'')) [],
               Element (ascii ''{http://www.w3.org/2005/Atom}title'') (Some (ascii ''T'')) [],
               Element (ascii ''{http://www.w3.org/2005/Atom}summary'') (Some (ascii ''S'')) []]"
  let ?bad = "Element (ascii ''{http://www.w3.org/2005/Atom}entry'') None
              [Element (ascii ''{http://www.w3.org/2005/Atom}id'') (Some (ascii ''http://arxiv.org/abs/2'')) [],
               Element (ascii ''{http://www.w3.org/2005/Atom}summary'') (Some (ascii ''S'')) []]"
  let ?root = "Element (ascii ''{http://www.w3.org/2005/Atom}feed'') None [?good, ?bad]"
  let ?w = "fixed_world ?root (Inr [])"
  let ?t = "ascii ''{http://www.w3.org/2005/Atom}title''"
  have h2: "map_of [(ascii ''query'', PStr (ascii ''cats''))] (ascii ''query'')
      = Some (PStr (ascii ''cats''))"
    by simp
  have h3: "http_get ?w (ARXIV_API_URL_format (PStr (ascii ''cats''))) = Inr []"
    and h4: "fromstring ?w [] = Inr ?root"
    by (simp_all add: fixed_world_def)
  have h5: "?bad \<in> set (findall ?root (ascii ''{http://www.w3.org/2005/Atom}entry''))"
    by (simp add: findall_def)
  have h6: "?t \<in> {ascii ''{http://www.w3.org/2005/Atom}id'', ?t,
                   ascii ''{http://www.w3.org/2005/Atom}summary''}"
    by simp
  have h7: "find_child ?bad ?t = None" by simp
  obtain msg where m: "handle_call_tool ?w (ascii ''search'') (Some [(ascii ''query'', PStr (ascii ''cats''))])
      = (Inl (Exn AttributeError msg), [HttpGet (ARXIV_API_URL_format (PStr (ascii ''cats'')))])"
    using missing_field_aborts_search [OF refl h2 h3 h4 h5 h6 h7] by auto
  have "entry_record ?good = Inr \<lparr>sr_id = ascii ''1'', sr_title = ascii ''T'', sr_text = ascii ''S'',
      sr_url = ascii ''https://arxiv.org/abs/'' @ ascii ''1''\<rparr>"
    by (simp add: entry_record_def find_text_def index_last_def split_def strip_def
        truncate_summary_def isspace_def ascii_def)
  moreover have "entry_record ?bad = Inl (none_has_no_attribute ''text'')"
    by (simp add: entry_record_def find_text_def index_last_split)
  ultimately have "handle_call_tool ?w (ascii ''search'') (Some [(ascii ''query'', PStr (ascii ''cats''))])
      = (Inl (none_has_no_attribute ''text''), [HttpGet (ARXIV_API_URL_format (PStr (ascii ''cats'')))])"
    by (simp add: handle_call_tool_search handle_search_def arg_def fixed_world_def findall_def)
  with m show ?thesis by simp
qed

section \<open>The formatted answer of search\<close>

text \<open>
  C8. For no records the formatter returns the one text content
  \<open>No papers found for the given query.\<close>; a feed without entries gives this answer.
\<close>

theorem no_entries_sentinel:
  assumes "args = Some d" and "map_of d (ascii ''query'') = Some query"
    and "http_get w (ARXIV_API_URL_format query) = Inr data"
    and "fromstring w data = Inr root"
    and "findall root (ascii ''{http://www.w3.org/2005/Atom}entry'') = []"
  shows "format_results [] =
           [\<lparr>tc_type = ascii ''text'', tc_text = ascii ''No papers found for the given query.'',
             tc_metadata = None\<rparr>]
         \<and> handle_call_tool w (ascii ''search'') args =
           (Inr [\<lparr>tc_type = ascii ''text'',
                  tc_text = ascii ''No papers found for the given query.'',
                  tc_metadata = None\<rparr>],
            [HttpGet (ARXIV_API_URL_format query)])"
  using assms
  by (simp add: handle_call_tool_search handle_search_def arg_present format_results_def)

theorem no_entries_sentinel_witness:
  "findall (Element (ascii ''{http://www.w3.org/2005/Atom}feed'') None
             [Element (ascii ''{http://www.w3.org/2005/Atom}title'') (Some (ascii ''ArXiv Query'')) []])
     (ascii ''{http://www.w3.org/2005/Atom}entry'') = []
   \<and> handle_call_tool
       (fixed_world
          (Element (ascii ''{http://www.w3.org/2005/Atom}feed'') None
             [Element (ascii ''{http://www.w3.org/2005/Atom}title'') (Some (ascii ''ArXiv Query'')) []])
          (Inr []))
       (ascii ''search'') (Some [(ascii ''query'', PStr (ascii ''zzzz''))])
     = (Inr [\<lparr>tc_type = ascii ''text'',
             tc_text = ascii ''No papers found for the given query.'',
             tc_metadata = None\<rparr>],
        [HttpGet (ARXIV_API_URL_format (PStr (ascii ''zzzz'')))])"
  using no_entries_sentinel [of "Some [(ascii ''query'', PStr (ascii ''zzzz''))]"
      "[(ascii ''query'', PStr (ascii ''zzzz''))]" "PStr (ascii ''zzzz'')"
      "fixed_world
          (Element (ascii ''{http://www.w3.org/2005/Atom}feed'') None
             [Element (ascii ''{http://www.w3.org/2005/Atom}title'') (Some (ascii ''ArXiv Query'')) []])
          (Inr [])" "[]"
      "Element (ascii ''{http://www.w3.org/2005/Atom}feed'') None
             [Element (ascii ''{http://www.w3.org/2005/Atom}title'') (Some (ascii ''ArXiv Query'')) []]"]
  by (simp add: fixed_world_def findall_def)

lemma format_loop_eq: "format_loop rs acc = acc @ concat (map format_record rs)"
  by (induction rs arbitrary: acc) auto

lemma format_results_text:
  "results \<noteq> [] \<Longrightarrow>
     format_results results =
       [\<lparr>tc_type = ascii ''text'',
         tc_text = ascii ''Search Results:'' @ newline @ newline
                   @ concat (map format_record results),
         tc_metadata = None\<rparr>]"
  by (simp add: format_results_def format_loop_eq)

lemma split_from_field:
  assumes "sep \<notin> set x" and "sep \<notin> set y"
  shows "split_from sep [] (x @ y @ sep # rest) = (x @ y) # split_from sep [] rest"
  using split_from_line [of sep "x @ y" "[]" rest] assms by simp

lemma label_no_newline:
  "10 \<notin> set (ascii ''ID: '')" "10 \<notin> set (ascii ''Title: '')"
  "10 \<notin> set (ascii ''Summary: '')" "10 \<notin> set (ascii ''URL: '')"
  "10 \<notin> set (ascii ''Search Results:'')"
  by (simp_all add: ascii_def)

lemma split_format_record:
  assumes "10 \<notin> set (sr_id r)" and "10 \<notin> set (sr_title r)"
    and "10 \<notin> set (sr_text r)" and "10 \<notin> set (sr_url r)"
  shows "split_from 10 [] (format_record r @ rest) =
           [ascii ''ID: '' @ sr_id r, ascii ''Title: '' @ sr_title r,
            ascii ''Summary: '' @ sr_text r, ascii ''URL: '' @ sr_url r, []]
           @ split_from 10 [] rest"
  using assms
  by (simp add: format_record_def newline_def split_from_field label_no_newline)

lemma split_format_records:
  assumes "\<forall>r \<in> set rs. 10 \<notin> set (sr_id r) \<and> 10 \<notin> set (sr_title r)
             \<and> 10 \<notin> set (sr_text r) \<and> 10 \<notin> set (sr_url r)"
  shows "split_from 10 [] (concat (map format_record rs)) =
           concat (map (\<lambda>r. [ascii ''ID: '' @ sr_id r, ascii ''Title: '' @ sr_title r,
                              ascii ''Summary: '' @ sr_text r, ascii ''URL: '' @ sr_url r, []]) rs)
           @ [[]]"
  using assms
proof (induction rs)
  case Nil
  show ?case by simp
next
  case (Cons r rs)
  then show ?case by (simp add: split_format_record)
qed

lemma lines_formatted:
  assumes "\<forall>r \<in> set rs. 10 \<notin> set (sr_id r) \<and> 10 \<notin> set (sr_title r)
             \<and> 10 \<notin> set (sr_text r) \<and> 10 \<notin> set (sr_url r)"
  shows "lines (format_loop rs (ascii ''Search Results:'' @ newline @ newline)) =
           ascii ''Search Results:'' # [] #
           concat (map (\<lambda>r. [ascii ''ID: '' @ sr_id r, ascii ''Title: '' @ sr_title r,
                              ascii ''Summary: '' @ sr_text r, ascii ''URL: '' @ sr_url r, []]) rs)
           @ [[]]"
proof -
  have "split_from 10 [] (ascii ''Search Results:'' @ 10 # 10 # concat (map format_record rs))
      = ascii ''Search Results:'' # split_from 10 [] (10 # concat (map format_record rs))"
    using split_from_line [of 10 "ascii ''Search Results:''" "[]"] label_no_newline(5) by simp
  then show ?thesis
    using split_format_records [OF assms]
    by (simp add: lines_def split_def format_loop_eq newline_def)
qed

lemma id_line_label:
  "take 3 (ascii ''ID: '' @ x) = ascii ''ID:''"
  "take 3 (ascii ''Title: '' @ x) \<noteq> ascii ''ID:''"
  "take 3 (ascii ''Summary: '' @ x) \<noteq> ascii ''ID:''"
  "take 3 (ascii ''URL: '' @ x) \<noteq> ascii ''ID:''"
  "take 3 (ascii ''Search Results:'') \<noteq> ascii ''ID:''"
  "[] \<noteq> ascii ''ID:''"
  by (simp_all add: ascii_def)

lemma filter_record_lines:
  "filter (\<lambda>l. take 3 l = ascii ''ID:'')
     (concat (map (\<lambda>r. [ascii ''ID: '' @ sr_id r, ascii ''Title: '' @ sr_title r,
                        ascii ''Summary: '' @ sr_text r, ascii ''URL: '' @ sr_url r, []]) rs))
   = map (\<lambda>r. ascii ''ID: '' @ sr_id r) rs"
  by (induction rs) (simp_all add: id_line_label del: take_append)

text \<open>
  C7, for records whose fields hold no line feed. The answer is one text content; its
  lines are the header, an empty line, then for each record in input order the four
  lines ID, Title, Summary, URL and an empty line; the lines that start with \<open>ID:\<close>
  are exactly one per record, in input order.
\<close>

theorem formatted_lines_when_fields_are_single_lines:
  assumes "results \<noteq> []"
    and "\<forall>r \<in> set results. 10 \<notin> set (sr_id r) \<and> 10 \<notin> set (sr_title r)
           \<and> 10 \<notin> set (sr_text r) \<and> 10 \<notin> set (sr_url r)"
  shows "\<exists>out. format_results results =
             [\<lparr>tc_type = ascii ''text'', tc_text = out, tc_metadata = None\<rparr>]
           \<and> lines out =
               ascii ''Search Results:'' # [] #
               concat (map (\<lambda>r. [ascii ''ID: '' @ sr_id r, ascii ''Title: '' @ sr_title r,
                                  ascii ''Summary: '' @ sr_text r, ascii ''URL: '' @ sr_url r,
                                  []]) results)
               @ [[]]
           \<and> id_lines out = map (\<lambda>r. ascii ''ID: '' @ sr_id r) results"
proof -
  let ?out = "format_loop results (ascii ''Search Results:'' @ newline @ newline)"
  have "format_results results = [\<lparr>tc_type = ascii ''text'', tc_text = ?out, tc_metadata = None\<rparr>]"
    using assms(1) by (simp add: format_results_def)
  moreover note lines_formatted [OF assms(2)]
  moreover from this have "id_lines ?out = map (\<lambda>r. ascii ''ID: '' @ sr_id r) results"
    by (simp add: id_lines_def id_line_label filter_record_lines del: take_append)
  ultimately show ?thesis by blast
qed

theorem formatted_lines_when_fields_are_single_lines_witness:
  "map (lines \<circ> tc_text)
     (format_results
        [\<lparr>sr_id = ascii ''1'', sr_title = ascii ''T'', sr_text = ascii ''a'', sr_url = ascii ''u''\<rparr>,
         \<lparr>sr_id = ascii ''2'', sr_title = ascii ''V'', sr_text = ascii ''b'', sr_url = ascii ''w''\<rparr>])
   = [[ascii ''Search Results:'', [],
       ascii ''ID: '' @ ascii ''1'', ascii ''Title: '' @ ascii ''T'',
       ascii ''Summary: '' @ ascii ''a'', ascii ''URL: '' @ ascii ''u'', [],
       ascii ''ID: '' @ ascii ''2'', ascii ''Title: '' @ ascii ''V'',
       ascii ''Summary: '' @ ascii ''b'', ascii ''URL: '' @ ascii ''w'', [],
       []]]
   \<and> map (id_lines \<circ> tc_text)
     (format_results
        [\<lparr>sr_id = ascii ''1'', sr_title = ascii ''T'', sr_text = ascii ''a'', sr_url = ascii ''u''\<rparr>,
         \<lparr>sr_id = ascii ''2'', sr_title = ascii ''V'', sr_text = ascii ''b'', sr_url = ascii ''w''\<rparr>])
   = [[ascii ''ID: '' @ ascii ''1'', ascii ''ID: '' @ ascii ''2'']]"
proof -
  let ?rs = "[\<lparr>sr_id = ascii ''1'', sr_title = ascii ''T'', sr_text = ascii ''a'', sr_url = ascii ''u''\<rparr>,
         \<lparr>sr_id = ascii ''2'', sr_title = ascii ''V'', sr_text = ascii ''b'', sr_url = ascii ''w''\<rparr>]"
  have h1: "?rs \<noteq> []" by simp
  have h2: "\<forall>r \<in> set ?rs. 10 \<notin> set (sr_id r) \<and> 10 \<notin> set (sr_title r)
           \<and> 10 \<notin> set (sr_text r) \<and> 10 \<notin> set (sr_url r)"
    by (simp add: ascii_def)
  from formatted_lines_when_fields_are_single_lines [OF h1 h2]
  show ?thesis by auto
qed

text \<open>
  C7 as stated fails when a field holds a line feed, which \<open>strip\<close> removes only at
  the two ends: one record whose summary is \<open>a\<close>, a line feed and \<open>ID: 2\<close> gives two
  ID lines.
\<close>

theorem summary_with_line_break_adds_id_line:
  "map (id_lines \<circ> tc_text)
     (format_results [\<lparr>sr_id = ascii ''1'', sr_title = ascii ''T'',
                       sr_text = ascii ''a'' @ newline @ ascii ''ID: 2'',
                       sr_url = ascii ''u''\<rparr>])
     = [[ascii ''ID: 1'', ascii ''ID: 2'']]
   \<and> length (concat (map (id_lines \<circ> tc_text)
        (format_results [\<lparr>sr_id = ascii ''1'', sr_title = ascii ''T'',
                          sr_text = ascii ''a'' @ newline @ ascii ''ID: 2'',
                          sr_url = ascii ''u''\<rparr>])))
     \<noteq> length [\<lparr>sr_id = ascii ''1'', sr_title = ascii ''T'',
                  sr_text = ascii ''a'' @ newline @ ascii ''ID: 2'',
                  sr_url = ascii ''u''\<rparr>]"
  by (simp add: format_results_def format_record_def id_lines_def lines_def split_def
      newline_def ascii_def)

end
